theory Spec2Isabelle
  imports Main
begin

section \<open>The collaborators of the socket container\<close>

text \<open>
  The source is \<^verbatim>\<open>src/backend/src/sockets/player.socket.container.ts\<close>, a class
  that wraps one WebSocket. Everything it imports (the configuration, the logger, the
  player model, the Ajv validators, the serialisers, the handler table and the \<^verbatim>\<open>ws\<close>
  library) lives outside the file, so each of them enters the model as data: a field of
  the record \<open>environment\<close>, or an event appended to the container's list of
  effects.
\<close>

text \<open>A decoded JSON value, what \<^verbatim>\<open>JSON.parse\<close> returns.\<close>

datatype json =
    JNull
  | JBool bool
  | JNum int
  | JStr string
  | JArr "json list"
  | JObj "(string \<times> json) list"

text \<open>
  Ajv's \<^verbatim>\<open>ErrorObject\<close>, with the two fields the source reads
  (\<^verbatim>\<open>instancePath: string\<close> and \<^verbatim>\<open>message?: string\<close>).
\<close>

record ErrorObject =
  instancePath :: string
  message :: "string option"

text \<open>
  What a \<^verbatim>\<open>catch (e)\<close> can receive. The first three constructors are the classes
  the source tests with \<^verbatim>\<open>instanceof\<close>; \<open>OtherError m\<close> is any other instance
  of \<^verbatim>\<open>Error\<close>, with \<^verbatim>\<open>e.message = m\<close>; \<open>NonError v\<close> is a thrown value
  that is no \<^verbatim>\<open>Error\<close> at all (JavaScript may throw anything).
\<close>

datatype thrown =
    SyntaxError string
  | ValidationError "ErrorObject list"
  | HandlerNotFoundError string
  | OtherError string
  | NonError json

text \<open>How a call ends: it returns a value or it throws.\<close>

datatype 'a completion = Normal 'a | Throw thrown

text \<open>
  \<^verbatim>\<open>OutgoingMsgType\<close> is an enum of \<^verbatim>\<open>../payloads/outgoing\<close>. The source
  names four of its members; \<open>HandlerMsg\<close> stands for the others, which only the
  handlers produce.
\<close>

datatype OutgoingMsgType =
    PleaseWait
  | BadPayload
  | BadMessageType
  | ServerError
  | HandlerMsg string

text \<open>
  The \<^verbatim>\<open>data\<close> of a response: \<^verbatim>\<open>{ info: <string> }\<close>,
  \<^verbatim>\<open>{ info: e.errors }\<close>, or whatever a handler built.
\<close>

datatype response_data =
    Info string
  | InfoErrors "ErrorObject list"
  | HandlerData json

record MessageHandlerResponse =
  msg_type :: OutgoingMsgType
  msg_data :: response_data

text \<open>The object \<^verbatim>\<open>{ type, data, sequence }\<close> handed to the serialiser.\<close>

record envelope =
  e_type :: OutgoingMsgType
  e_data :: response_data
  e_sequence :: nat

datatype Player = Player (getUUID: string)

text \<open>
  \<^verbatim>\<open>WebSocket.readyState\<close> and the numeric constants of the \<^verbatim>\<open>ws\<close> library
  (\<^verbatim>\<open>CONNECTING = 0, OPEN = 1, CLOSING = 2, CLOSED = 3\<close>).
\<close>

datatype ReadyState = CONNECTING | OPEN | CLOSING | CLOSED

primrec code :: "ReadyState \<Rightarrow> nat" where
  "code CONNECTING = 0"
| "code OPEN = 1"
| "code CLOSING = 2"
| "code CLOSED = 3"

text \<open>
  JavaScript's \<^verbatim>\<open>k in arr\<close> for a number \<open>k\<close> and an array literal: it asks
  whether \<open>k\<close> is an index of the array, not whether it is one of its elements.
\<close>

definition js_in_array :: "nat \<Rightarrow> 'a list \<Rightarrow> bool" where
  "js_in_array k xs = (k < length xs)"

text \<open>\<^verbatim>\<open>xs.join(sep)\<close> on an array of strings.\<close>

fun js_join :: "string \<Rightarrow> string list \<Rightarrow> string" where
  "js_join sep [] = []"
| "js_join sep [x] = x"
| "js_join sep (x # y # ys) = x @ sep @ js_join sep (y # ys)"

datatype log_level = TRACE | INFO | WARN | ERROR

datatype log_arg = Str string | Val thrown | Undefined

text \<open>
  What the container does to the outside world, in order: a logger call, a frame
  written with \<^verbatim>\<open>ws.send\<close>, a \<^verbatim>\<open>ws.close(code)\<close>, and the two timer calls.
\<close>

datatype event =
    Log log_level "log_arg list"
  | WsSend string
  | WsClose nat
  | SetInterval nat
  | ClearInterval

section \<open>The container\<close>

text \<open>
  The private fields of \<^verbatim>\<open>PlayerSocketDataContainer\<close>, the two pieces of state it
  owns outside itself (the socket's \<^verbatim>\<open>readyState\<close>, and whether the interval behind
  \<^verbatim>\<open>kickTimer\<close> is still scheduled), and the effects so far.
  \<^verbatim>\<open>lastRecvTs\<close> is \<^verbatim>\<open>undefined\<close> until the first accepted message, hence
  an option. \<^verbatim>\<open>sequence\<close> is a JavaScript number that only ever holds
  \<open>0, 1, 2, \<dots>\<close>; it is modelled by \<open>nat\<close>, which is exact below \<open>2 ^ 53\<close>.
\<close>

record PlayerSocketDataContainer =
  locked :: bool
  sequence :: nat
  lastRecvTs :: "int option"
  player :: "Player option"
  ws_readyState :: ReadyState
  kickTimer_active :: bool
  effects :: "event list"

text \<open>
  The imports. \<open>stringifiers\<close> is the table of specialised serialisers; a serialiser
  and \<^verbatim>\<open>JSON.stringify\<close> may throw. \<open>JSON_parse\<close> returns the decoded value or
  the message of the \<^verbatim>\<open>SyntaxError\<close> it throws. \<open>validatePayload\<close> returns the
  verdict together with \<^verbatim>\<open>validatePayload.errors\<close> (\<open>None\<close> for
  \<^verbatim>\<open>null\<close>). \<open>processSocketMessage\<close> is the awaited handler call: it receives
  the container itself, so it returns the container as the handler (and whatever ran
  while the call was pending) left it; the model covers the executions in which the
  promise settles. \<open>ws_send_throws\<close> says whether \<^verbatim>\<open>ws.send\<close> throws on a
  frame. The logger does not throw.
\<close>

record environment =
  NODE_ENV :: string
  WS_ACTIVITY_TIMEOUT_MS :: int
  stringifiers :: "OutgoingMsgType \<Rightarrow> (envelope \<Rightarrow> string completion) option"
  JSON_stringify :: "envelope \<Rightarrow> string completion"
  JSON_parse :: "string \<Rightarrow> string + json"
  validatePayload :: "json \<Rightarrow> bool \<times> ErrorObject list option"
  processSocketMessage ::
    "PlayerSocketDataContainer \<Rightarrow> json \<Rightarrow>
       MessageHandlerResponse completion \<times> PlayerSocketDataContainer"
  ws_send_throws :: "string \<Rightarrow> thrown option"

text \<open>
  What Ajv promises of a compiled validator: when it returns \<^verbatim>\<open>false\<close>, its
  \<^verbatim>\<open>errors\<close> property holds an array with at least one error.
\<close>

definition validator_reports_errors :: "environment \<Rightarrow> bool" where
  "validator_reports_errors env =
     (\<forall>j. \<not> fst (validatePayload env j) \<longrightarrow>
        (\<exists>es. snd (validatePayload env j) = Some es \<and> es \<noteq> []))"

subsection \<open>Control flow\<close>

text \<open>\<^verbatim>\<open>try { body } catch (e) { handler }\<close> over a state \<open>'s\<close>.\<close>

definition try_catch ::
  "('s \<Rightarrow> 'a completion \<times> 's) \<Rightarrow> (thrown \<Rightarrow> 's \<Rightarrow> 'a completion \<times> 's) \<Rightarrow>
     's \<Rightarrow> 'a completion \<times> 's" where
  "try_catch body handler s =
     (case body s of
        (Normal v, s1) \<Rightarrow> (Normal v, s1)
      | (Throw e, s1) \<Rightarrow> handler e s1)"

text \<open>
  \<^verbatim>\<open>try { body } catch (e) { handler } finally { finaliser }\<close> with a finaliser
  that completes normally: it runs after the body, or after the handler, and the
  completion of the body or of the handler stands; a handler that throws still has the
  finaliser run before its exception leaves.
\<close>

definition try_catch_finally ::
  "('s \<Rightarrow> 'a completion \<times> 's) \<Rightarrow> (thrown \<Rightarrow> 's \<Rightarrow> 'a completion \<times> 's) \<Rightarrow>
     ('s \<Rightarrow> 's) \<Rightarrow> 's \<Rightarrow> 'a completion \<times> 's" where
  "try_catch_finally body handler finaliser s =
     (case try_catch body handler s of (r, s1) \<Rightarrow> (r, finaliser s1))"

subsection \<open>The logger, the socket and the timer\<close>

definition log :: "log_level \<Rightarrow> log_arg list \<Rightarrow> PlayerSocketDataContainer \<Rightarrow> PlayerSocketDataContainer" where
  "log lvl args s = s\<lparr>effects := effects s @ [Log lvl args]\<rparr>"

text \<open>\<^verbatim>\<open>ws.send(frame)\<close>: the frame goes out, or the call throws.\<close>

definition ws_send ::
  "environment \<Rightarrow> string \<Rightarrow> PlayerSocketDataContainer \<Rightarrow> unit completion \<times> PlayerSocketDataContainer" where
  "ws_send env frame s =
     (case ws_send_throws env frame of
        Some e \<Rightarrow> (Throw e, s)
      | None \<Rightarrow> (Normal (), s\<lparr>effects := effects s @ [WsSend frame]\<rparr>))"

text \<open>
  \<^verbatim>\<open>ws.close(code)\<close>, as the WebSocket interface has it: the call starts the closing
  handshake, so a socket that was not yet closed is \<open>CLOSING\<close> afterwards.
\<close>

definition ws_close :: "nat \<Rightarrow> PlayerSocketDataContainer \<Rightarrow> PlayerSocketDataContainer" where
  "ws_close c s =
     s\<lparr>ws_readyState := (if ws_readyState s = CLOSED then CLOSED else CLOSING),
       effects := effects s @ [WsClose c]\<rparr>"

text \<open>\<^verbatim>\<open>clearInterval(this.kickTimer)\<close>; on a timer already cleared it changes nothing.\<close>

definition clearInterval :: "PlayerSocketDataContainer \<Rightarrow> PlayerSocketDataContainer" where
  "clearInterval s = s\<lparr>kickTimer_active := False, effects := effects s @ [ClearInterval]\<rparr>"

subsection \<open>The methods\<close>

definition isLocked :: "PlayerSocketDataContainer \<Rightarrow> bool" where
  "isLocked s = locked s"

definition lock :: "PlayerSocketDataContainer \<Rightarrow> PlayerSocketDataContainer" where
  "lock s = s\<lparr>locked := True\<rparr>"

definition unlock :: "PlayerSocketDataContainer \<Rightarrow> PlayerSocketDataContainer" where
  "unlock s = s\<lparr>locked := False\<rparr>"

definition setPlayer :: "Player \<Rightarrow> PlayerSocketDataContainer \<Rightarrow> PlayerSocketDataContainer" where
  "setPlayer p s = s\<lparr>player := Some p\<rparr>"

definition getPlayer :: "PlayerSocketDataContainer \<Rightarrow> Player option" where
  "getPlayer s = player s"

text \<open>
  \<^verbatim>\<open>return ++this.sequence\<close>: the new value, and the container holding it. The
  source's counter is a JavaScript number, which counts exactly up to \<open>2 ^ 53\<close>: the
  definition is the source's increment on every counter below \<open>2 ^ 53\<close>, and the
  theorems about the numbering are stated for that range.
\<close>

definition getSequenceNumber :: "PlayerSocketDataContainer \<Rightarrow> nat \<times> PlayerSocketDataContainer" where
  "getSequenceNumber s = (sequence s + 1, s\<lparr>sequence := sequence s + 1\<rparr>)"

text \<open>\<^verbatim>\<open>this.player?.getUUID()\<close> as a logger argument.\<close>

definition player_uuid_arg :: "PlayerSocketDataContainer \<Rightarrow> log_arg" where
  "player_uuid_arg s = (case player s of None \<Rightarrow> Undefined | Some p \<Rightarrow> Str (getUUID p))"

text \<open>\<^verbatim>\<open>this.player?.getUUID() || '*uninitialised*'\<close>: the empty string is falsy.\<close>

definition player_uuid_or_uninitialised :: "PlayerSocketDataContainer \<Rightarrow> string" where
  "player_uuid_or_uninitialised s =
     (case player s of
        None \<Rightarrow> ''*uninitialised*''
      | Some p \<Rightarrow> (if getUUID p = [] then ''*uninitialised*'' else getUUID p))"

text \<open>\<^verbatim>\<open>stringifiers[response.type] || JSON.stringify\<close>.\<close>

definition serialiser_of :: "environment \<Rightarrow> OutgoingMsgType \<Rightarrow> envelope \<Rightarrow> string completion" where
  "serialiser_of env t =
     (case stringifiers env t of
        Some f \<Rightarrow> f
      | None \<Rightarrow> JSON_stringify env)"

definition send ::
  "environment \<Rightarrow> MessageHandlerResponse \<Rightarrow> PlayerSocketDataContainer \<Rightarrow>
     unit completion \<times> PlayerSocketDataContainer" where
  "send env response s =
     (let serialiser = serialiser_of env (msg_type response)
      in try_catch
           (\<lambda>s. if ws_readyState s = OPEN then
                   (case getSequenceNumber s of
                      (n, s1) \<Rightarrow>
                        (case serialiser \<lparr>e_type = msg_type response,
                                          e_data = msg_data response,
                                          e_sequence = n\<rparr> of
                           Throw e \<Rightarrow> (Throw e, s1)
                         | Normal outgoingJson \<Rightarrow>
                             ws_send env outgoingJson
                               (log TRACE [Str ''sending JSON to client:%j'', Str outgoingJson] s1)))
                 else
                   (Normal (),
                    log WARN [Str ''Attempted to send message on closed socket for player: %j'',
                              player_uuid_arg s] s))
           (\<lambda>error s.
              (Normal (), log ERROR [Str ''Failed to send ws message. Error: %j'', Val error] s))
           s)"

definition close :: "PlayerSocketDataContainer \<Rightarrow> unit completion \<times> PlayerSocketDataContainer" where
  "close s =
     (let s1 = (if js_in_array (code (ws_readyState s)) [code OPEN, code CONNECTING]
                then ws_close 1000 s
                else s)
      in (Normal (), clearInterval s1))"

text \<open>
  The constructor: the field initialisers and \<^verbatim>\<open>setInterval(..., 60 * 1000)\<close>. The
  argument is the state of the socket it is given.
\<close>

definition new_container :: "ReadyState \<Rightarrow> PlayerSocketDataContainer" where
  "new_container rs =
     \<lparr>locked = False, sequence = 0, lastRecvTs = None, player = None,
      ws_readyState = rs, kickTimer_active = True, effects = [SetInterval (60 * 1000)]\<rparr>"

text \<open>
  The callback of the interval; \<open>now\<close> is what \<^verbatim>\<open>Date.now()\<close> returns. The
  condition is
  \<^verbatim>\<open>this.lastRecvTs === undefined || now - this.lastRecvTs > WS_ACTIVITY_TIMEOUT_MS\<close>.
\<close>

definition kickTimer_callback ::
  "environment \<Rightarrow> int \<Rightarrow> PlayerSocketDataContainer \<Rightarrow> unit completion \<times> PlayerSocketDataContainer" where
  "kickTimer_callback env now s =
     (if (case lastRecvTs s of
            None \<Rightarrow> True
          | Some ts \<Rightarrow> now - ts > WS_ACTIVITY_TIMEOUT_MS env) then
        close (log INFO [Str (''kicking inactive socket for player '' @
                              player_uuid_or_uninitialised s)] s)
      else
        (Normal (),
         log TRACE [Str (''not kicking player/socket '' @ player_uuid_or_uninitialised s @
                        '' since they've been active'')] s))"

text \<open>The \<^verbatim>\<open>try\<close> block of \<^verbatim>\<open>processMessage\<close>.\<close>

definition processMessage_try ::
  "environment \<Rightarrow> string \<Rightarrow> PlayerSocketDataContainer \<Rightarrow>
     unit completion \<times> PlayerSocketDataContainer" where
  "processMessage_try env data s =
     (case JSON_parse env data of
        Inl m \<Rightarrow> (Throw (SyntaxError m), s)
      | Inr json \<Rightarrow>
          (case validatePayload env json of
             (valid, errors) \<Rightarrow>
               if \<not> valid then
                 (case errors of
                    Some es \<Rightarrow> (Throw (ValidationError es), s)
                  | None \<Rightarrow>
                      (Throw (OtherError
                         ''Ajv validation failed, but no errors are available to display.''), s))
               else
                 (case processSocketMessage env s json of
                    (Throw e, s1) \<Rightarrow> (Throw e, s1)
                  | (Normal response, s1) \<Rightarrow> send env response s1)))"

text \<open>
  The \<^verbatim>\<open>catch (e)\<close> block, one case per arm of its \<^verbatim>\<open>instanceof\<close> chain;
  the last two cases are the \<^verbatim>\<open>else\<close> arm, split by
  \<^verbatim>\<open>e instanceof Error ? e.message : 'unknown error'\<close>.
\<close>

definition violation_text :: "ErrorObject \<Rightarrow> string" where
  "violation_text e =
     instancePath e @ '': '' @ (case message e of None \<Rightarrow> ''undefined'' | Some m \<Rightarrow> m)"

definition processMessage_catch ::
  "environment \<Rightarrow> string \<Rightarrow> thrown \<Rightarrow> PlayerSocketDataContainer \<Rightarrow>
     unit completion \<times> PlayerSocketDataContainer" where
  "processMessage_catch env data e s =
     (case e of
        SyntaxError m \<Rightarrow>
          send env
            \<lparr>msg_type = BadPayload,
             msg_data = Info ''Your JSON payload was a bit iffy. K thx bye.''\<rparr>
            (log ERROR
               [Str (''received malformed socket message JSON/Buffer. Buffer contained:'' @
                     [CHR 0x0A] @ ''%j''),
                Str data] s)
      | ValidationError errors \<Rightarrow>
          send env
            \<lparr>msg_type = BadPayload, msg_data = InfoErrors errors\<rparr>
            (log WARN
               [Str (''message failed schema validation with reason '' @ [CHR 0x22] @
                     js_join '', '' (map violation_text errors) @ [CHR 0x22] @
                     '' for data: '' @ data)] s)
      | HandlerNotFoundError t \<Rightarrow>
          send env
            \<lparr>msg_type = BadMessageType,
             msg_data = Info ([CHR 0x22] @ t @ [CHR 0x22] @ '' is an unrecognised message type'')\<rparr>
            s
      | OtherError m \<Rightarrow>
          send env
            \<lparr>msg_type = ServerError,
             msg_data = Info (if NODE_ENV env = ''dev'' then m
                              else ''there was an error processing your payload'')\<rparr>
            (log ERROR [Val e]
               (log ERROR [Str (''error processing an incoming message: '' @ data)] s))
      | NonError v \<Rightarrow>
          send env
            \<lparr>msg_type = ServerError,
             msg_data = Info (if NODE_ENV env = ''dev'' then ''unknown error''
                              else ''there was an error processing your payload'')\<rparr>
            (log ERROR [Val e]
               (log ERROR [Str (''error processing an incoming message: '' @ data)] s)))"

text \<open>
  \<^verbatim>\<open>processMessage(data)\<close>; \<open>data\<close> is \<^verbatim>\<open>data.toString()\<close> and \<open>now\<close> what
  \<^verbatim>\<open>Date.now()\<close> returns. The completion is how the promise settles.
\<close>

definition processMessage ::
  "environment \<Rightarrow> int \<Rightarrow> string \<Rightarrow> PlayerSocketDataContainer \<Rightarrow>
     unit completion \<times> PlayerSocketDataContainer" where
  "processMessage env now data s =
     (if isLocked s then
        send env
          \<lparr>msg_type = PleaseWait,
           msg_data = Info ''Already processing a message on your behalf. Slow down there kiddo!''\<rparr>
          (log WARN
             [Str (''cannot process message for '' @
                   (case getPlayer s of None \<Rightarrow> ''undefined'' | Some p \<Rightarrow> getUUID p) @
                   ''. We're already processing one on their behalf!'')] s)
      else
        (let s1 = log TRACE [Str (''processing incoming socket data: '' @ data)] s;
             s2 = lock s1;
             s3 = s2\<lparr>lastRecvTs := Some now\<rparr>
         in try_catch_finally (processMessage_try env data) (processMessage_catch env data)
              unlock s3))"

section \<open>Observations\<close>

text \<open>The container on entering the \<^verbatim>\<open>try\<close> block of \<open>processMessage\<close>.\<close>

definition entered :: "int \<Rightarrow> string \<Rightarrow> PlayerSocketDataContainer \<Rightarrow> PlayerSocketDataContainer" where
  "entered now data s =
     (lock (log TRACE [Str (''processing incoming socket data: '' @ data)] s))
       \<lparr>lastRecvTs := Some now\<rparr>"

text \<open>The frames written to the socket, in order.\<close>

fun frames :: "event list \<Rightarrow> string list" where
  "frames [] = []"
| "frames (WsSend f # es) = f # frames es"
| "frames (e # es) = frames es"

text \<open>The codes the socket was closed with, in order.\<close>

fun closes :: "event list \<Rightarrow> nat list" where
  "closes [] = []"
| "closes (WsClose c # es) = c # closes es"
| "closes (e # es) = closes es"

text \<open>What a call added to the effects: those of \<open>s'\<close> beyond those of \<open>s\<close>.\<close>

definition effects_since ::
  "PlayerSocketDataContainer \<Rightarrow> PlayerSocketDataContainer \<Rightarrow> event list" where
  "effects_since s s' = drop (length (effects s)) (effects s')"

text \<open>Calls of \<open>send\<close> one after the other, as a connection makes them.\<close>

fun send_all ::
  "environment \<Rightarrow> MessageHandlerResponse list \<Rightarrow> PlayerSocketDataContainer \<Rightarrow>
     PlayerSocketDataContainer" where
  "send_all env [] s = s"
| "send_all env (r # rs) s = send_all env rs (snd (send env r s))"

text \<open>
  The frame an open socket receives for response \<open>r\<close> numbered \<open>n\<close>: the serialiser's
  output on the envelope with \<^verbatim>\<open>sequence: n\<close>, unless the serialiser or
  \<^verbatim>\<open>ws.send\<close> throws.
\<close>

definition frame_of :: "environment \<Rightarrow> MessageHandlerResponse \<Rightarrow> nat \<Rightarrow> string option" where
  "frame_of env r n =
     (case serialiser_of env (msg_type r)
             \<lparr>e_type = msg_type r, e_data = msg_data r, e_sequence = n\<rparr> of
        Throw e \<Rightarrow> None
      | Normal f \<Rightarrow> (case ws_send_throws env f of None \<Rightarrow> Some f | Some e \<Rightarrow> None))"

section \<open>An environment to run the model in\<close>

text \<open>Decimal digits, for numbers below ten.\<close>

definition digit :: "nat \<Rightarrow> char" where
  "digit n = ''0123456789'' ! n"

function decimal :: "nat \<Rightarrow> string" where
  "decimal n = (if n < 10 then [digit n] else decimal (n div 10) @ [digit (n mod 10)])"
  by pat_completeness auto
termination
  by (relation "measure (\<lambda>n. n)") auto

fun type_name :: "OutgoingMsgType \<Rightarrow> string" where
  "type_name PleaseWait = ''PleaseWait''"
| "type_name BadPayload = ''BadPayload''"
| "type_name BadMessageType = ''BadMessageType''"
| "type_name ServerError = ''ServerError''"
| "type_name (HandlerMsg t) = t"

fun data_text :: "response_data \<Rightarrow> string" where
  "data_text (Info i) = i"
| "data_text (InfoErrors es) = js_join ''; '' (map violation_text es)"
| "data_text (HandlerData j) = []"

text \<open>
  A serialiser that prints the kind, the sequence number and the \<^verbatim>\<open>info\<close> of an
  envelope.
\<close>

definition example_stringify :: "envelope \<Rightarrow> string completion" where
  "example_stringify e =
     Normal (type_name (e_type e) @ ''#'' @ decimal (e_sequence e) @ '' '' @ data_text (e_data e))"

text \<open>
  A development deployment with a five-minute timeout: the only specialised serialiser
  is the one for the kind \<open>''boom''\<close>, and it throws; the only payload that decodes is
  \<open>''{}''\<close>; every decoded payload is valid; the handler answers \<open>''pong''\<close> and
  leaves the container alone; \<^verbatim>\<open>ws.send\<close> does not throw.
\<close>

definition example_env :: environment where
  "example_env =
     \<lparr>NODE_ENV = ''dev'',
      WS_ACTIVITY_TIMEOUT_MS = 300000,
      stringifiers =
        (\<lambda>t. if t = HandlerMsg ''boom'' then Some (\<lambda>e. Throw (OtherError ''boom'')) else None),
      JSON_stringify = example_stringify,
      JSON_parse = (\<lambda>d. if d = ''{}'' then Inr (JObj []) else Inl ''Unexpected token''),
      validatePayload = (\<lambda>j. (True, None)),
      processSocketMessage =
        (\<lambda>s j. (Normal \<lparr>msg_type = HandlerMsg ''pong'', msg_data = HandlerData JNull\<rparr>, s)),
      ws_send_throws = (\<lambda>f. None)\<rparr>"

section \<open>Facts about the control flow and \<open>send\<close>\<close>

lemma frames_append: "frames (xs @ ys) = frames xs @ frames ys"
  by (induction xs rule: frames.induct) simp_all



lemma send_not_open:
  "ws_readyState s \<noteq> OPEN \<Longrightarrow>
     send env r s =
       (Normal (),
        log WARN [Str ''Attempted to send message on closed socket for player: %j'',
                  player_uuid_arg s] s)"
  by (simp add: send_def try_catch_def)

lemma send_serialiser_throws:
  "ws_readyState s = OPEN \<Longrightarrow>
   serialiser_of env (msg_type r)
     \<lparr>e_type = msg_type r, e_data = msg_data r, e_sequence = sequence s + 1\<rparr> = Throw e \<Longrightarrow>
     send env r s =
       (Normal (),
        log ERROR [Str ''Failed to send ws message. Error: %j'', Val e]
          (snd (getSequenceNumber s)))"
  by (simp add: send_def try_catch_def getSequenceNumber_def)

lemma send_ws_send_throws:
  "ws_readyState s = OPEN \<Longrightarrow>
   serialiser_of env (msg_type r)
     \<lparr>e_type = msg_type r, e_data = msg_data r, e_sequence = sequence s + 1\<rparr> = Normal f \<Longrightarrow>
   ws_send_throws env f = Some e \<Longrightarrow>
     send env r s =
       (Normal (),
        log ERROR [Str ''Failed to send ws message. Error: %j'', Val e]
          (log TRACE [Str ''sending JSON to client:%j'', Str f] (snd (getSequenceNumber s))))"
  by (simp add: send_def try_catch_def getSequenceNumber_def ws_send_def)

lemma send_written:
  "ws_readyState s = OPEN \<Longrightarrow>
   serialiser_of env (msg_type r)
     \<lparr>e_type = msg_type r, e_data = msg_data r, e_sequence = sequence s + 1\<rparr> = Normal f \<Longrightarrow>
   ws_send_throws env f = None \<Longrightarrow>
     send env r s =
       (Normal (),
        (log TRACE [Str ''sending JSON to client:%j'', Str f] (snd (getSequenceNumber s)))
          \<lparr>effects := effects (log TRACE [Str ''sending JSON to client:%j'', Str f]
                                 (snd (getSequenceNumber s))) @ [WsSend f]\<rparr>)"
  by (simp add: send_def try_catch_def getSequenceNumber_def ws_send_def)

lemma send_completes: "fst (send env r s) = Normal ()"
  by (simp add: send_def try_catch_def ws_send_def getSequenceNumber_def
           split: completion.split option.split)

lemma send_frame:
  "locked (snd (send env r s)) = locked s"
  "lastRecvTs (snd (send env r s)) = lastRecvTs s"
  "player (snd (send env r s)) = player s"
  "ws_readyState (snd (send env r s)) = ws_readyState s"
  "kickTimer_active (snd (send env r s)) = kickTimer_active s"
  by (simp_all add: send_def try_catch_def ws_send_def getSequenceNumber_def log_def
           split: completion.split option.split)

lemma send_sequence:
  "sequence (snd (send env r s)) = (if ws_readyState s = OPEN then sequence s + 1 else sequence s)"
  by (simp add: send_def try_catch_def ws_send_def getSequenceNumber_def log_def
           split: completion.split option.split)

lemma send_effects_frames:
  "frames (effects (snd (send env r s))) =
     frames (effects s) @
       (if ws_readyState s = OPEN
        then (case frame_of env r (sequence s + 1) of Some f \<Rightarrow> [f] | None \<Rightarrow> [])
        else [])"
  by (simp add: send_def try_catch_def ws_send_def getSequenceNumber_def log_def frame_of_def
        frames_append split: completion.split option.split)




lemma processMessage_accepted:
  "\<not> isLocked s \<Longrightarrow>
     processMessage env now data s =
       try_catch_finally (processMessage_try env data) (processMessage_catch env data)
         unlock (entered now data s)"
  by (simp add: processMessage_def entered_def)

lemma processMessage_catch_completes: "fst (processMessage_catch env data e s) = Normal ()"
  by (cases e) (simp_all add: processMessage_catch_def send_completes)

lemma unlocked_after_finally:
  "\<not> isLocked (snd (try_catch_finally body handler unlock s))"
  by (simp add: try_catch_finally_def isLocked_def unlock_def split: prod.split)

lemma try_catch_finally_throw:
  "body s = (Throw e, s1) \<Longrightarrow>
     try_catch_finally body handler finaliser s =
       (fst (handler e s1), finaliser (snd (handler e s1)))"
  by (simp add: try_catch_finally_def try_catch_def split: prod.split)

lemma try_catch_finally_normal:
  "body s = (Normal v, s1) \<Longrightarrow>
     try_catch_finally body handler finaliser s = (Normal v, finaliser s1)"
  by (simp add: try_catch_finally_def try_catch_def)

section \<open>Claim C7: \<open>send\<close> never throws\<close>

text \<open>
  C7. For every response and every state of the transport, \<open>send\<close> completes normally:
  no exception reaches its caller. If the socket is not \<open>OPEN\<close> the call writes no
  frame and draws no sequence number; all it does is log at level \<open>WARN\<close>. If the
  serialiser throws, or \<^verbatim>\<open>ws.send\<close> throws, the exception is logged at level
  \<open>ERROR\<close> and goes no further.
\<close>

theorem send_never_throws:
  "fst (send env r s) = Normal () \<and>
   (ws_readyState s \<noteq> OPEN \<longrightarrow>
      effects_since s (snd (send env r s)) =
        [Log WARN [Str ''Attempted to send message on closed socket for player: %j'',
                   player_uuid_arg s]] \<and>
      frames (effects (snd (send env r s))) = frames (effects s) \<and>
      sequence (snd (send env r s)) = sequence s) \<and>
   (\<forall>e. ws_readyState s = OPEN \<and>
        serialiser_of env (msg_type r)
          \<lparr>e_type = msg_type r, e_data = msg_data r, e_sequence = sequence s + 1\<rparr> = Throw e \<longrightarrow>
      effects_since s (snd (send env r s)) =
        [Log ERROR [Str ''Failed to send ws message. Error: %j'', Val e]]) \<and>
   (\<forall>f e. ws_readyState s = OPEN \<and>
        serialiser_of env (msg_type r)
          \<lparr>e_type = msg_type r, e_data = msg_data r, e_sequence = sequence s + 1\<rparr> = Normal f \<and>
        ws_send_throws env f = Some e \<longrightarrow>
      effects_since s (snd (send env r s)) =
        [Log TRACE [Str ''sending JSON to client:%j'', Str f],
         Log ERROR [Str ''Failed to send ws message. Error: %j'', Val e]])"
proof (intro conjI allI impI)
  show "fst (send env r s) = Normal ()"
    by (rule send_completes)
next
  assume closed: "ws_readyState s \<noteq> OPEN"
  then show "effects_since s (snd (send env r s)) =
      [Log WARN [Str ''Attempted to send message on closed socket for player: %j'',
                 player_uuid_arg s]]"
    by (simp add: send_not_open log_def effects_since_def)
  from closed show "frames (effects (snd (send env r s))) = frames (effects s)"
    by (simp add: send_effects_frames)
  from closed show "sequence (snd (send env r s)) = sequence s"
    by (simp add: send_sequence)
next
  fix e
  assume "ws_readyState s = OPEN \<and>
    serialiser_of env (msg_type r)
      \<lparr>e_type = msg_type r, e_data = msg_data r, e_sequence = sequence s + 1\<rparr> = Throw e"
  then show "effects_since s (snd (send env r s)) =
      [Log ERROR [Str ''Failed to send ws message. Error: %j'', Val e]]"
    by (simp add: send_serialiser_throws log_def effects_since_def getSequenceNumber_def)
next
  fix f e
  assume "ws_readyState s = OPEN \<and>
    serialiser_of env (msg_type r)
      \<lparr>e_type = msg_type r, e_data = msg_data r, e_sequence = sequence s + 1\<rparr> = Normal f \<and>
    ws_send_throws env f = Some e"
  then show "effects_since s (snd (send env r s)) =
      [Log TRACE [Str ''sending JSON to client:%j'', Str f],
       Log ERROR [Str ''Failed to send ws message. Error: %j'', Val e]]"
    by (simp add: send_ws_send_throws log_def effects_since_def getSequenceNumber_def)
qed

text \<open>
  The three ways of not writing a frame, run in the example environment: a socket that
  is closing, a serialiser that throws, and a \<^verbatim>\<open>ws.send\<close> that throws.
\<close>

theorem send_never_throws_witness:
  "ws_readyState (new_container CLOSING) \<noteq> OPEN \<and>
   fst (send example_env \<lparr>msg_type = PleaseWait, msg_data = Info ''wait''\<rparr>
          (new_container CLOSING)) = Normal () \<and>
   effects_since (new_container CLOSING)
     (snd (send example_env \<lparr>msg_type = PleaseWait, msg_data = Info ''wait''\<rparr>
             (new_container CLOSING))) =
     [Log WARN [Str ''Attempted to send message on closed socket for player: %j'', Undefined]] \<and>
   ws_readyState (new_container OPEN) = OPEN \<and>
   serialiser_of example_env (HandlerMsg ''boom'')
     \<lparr>e_type = HandlerMsg ''boom'', e_data = HandlerData JNull, e_sequence = 1\<rparr> =
     Throw (OtherError ''boom'') \<and>
   fst (send example_env \<lparr>msg_type = HandlerMsg ''boom'', msg_data = HandlerData JNull\<rparr>
          (new_container OPEN)) = Normal () \<and>
   effects_since (new_container OPEN)
     (snd (send example_env \<lparr>msg_type = HandlerMsg ''boom'', msg_data = HandlerData JNull\<rparr>
             (new_container OPEN))) =
     [Log ERROR [Str ''Failed to send ws message. Error: %j'', Val (OtherError ''boom'')]] \<and>
   ws_send_throws (example_env\<lparr>ws_send_throws := \<lambda>f. Some (OtherError ''EPIPE'')\<rparr>)
     ''PleaseWait#1 wait'' = Some (OtherError ''EPIPE'') \<and>
   effects_since (new_container OPEN)
     (snd (send (example_env\<lparr>ws_send_throws := \<lambda>f. Some (OtherError ''EPIPE'')\<rparr>)
             \<lparr>msg_type = PleaseWait, msg_data = Info ''wait''\<rparr> (new_container OPEN))) =
     [Log TRACE [Str ''sending JSON to client:%j'', Str ''PleaseWait#1 wait''],
      Log ERROR [Str ''Failed to send ws message. Error: %j'', Val (OtherError ''EPIPE'')]]"
  using send_never_throws [of example_env
          "\<lparr>msg_type = PleaseWait, msg_data = Info ''wait''\<rparr>" "new_container CLOSING"]
        send_never_throws [of example_env
          "\<lparr>msg_type = HandlerMsg ''boom'', msg_data = HandlerData JNull\<rparr>" "new_container OPEN"]
        send_never_throws [of "example_env\<lparr>ws_send_throws := \<lambda>f. Some (OtherError ''EPIPE'')\<rparr>"
          "\<lparr>msg_type = PleaseWait, msg_data = Info ''wait''\<rparr>" "new_container OPEN"]
  by (simp add: new_container_def example_env_def serialiser_of_def player_uuid_arg_def digit_def
        example_stringify_def)

section \<open>Facts about \<open>close\<close>\<close>

text \<open>On the four states of a socket, the \<^verbatim>\<open>in\<close> test of \<open>close\<close> is membership.\<close>

lemma close_open_or_connecting:
  "js_in_array (code rs) [code OPEN, code CONNECTING] = (rs = OPEN \<or> rs = CONNECTING)"
  by (cases rs) (simp_all add: js_in_array_def)

lemma close_unfold:
  "close s =
     (Normal (),
      clearInterval (if ws_readyState s = OPEN \<or> ws_readyState s = CONNECTING
                     then ws_close 1000 s else s))"
  by (cases "ws_readyState s") (simp_all add: close_def js_in_array_def)

lemma close_frame:
  "locked (snd (close s)) = locked s"
  "sequence (snd (close s)) = sequence s"
  "lastRecvTs (snd (close s)) = lastRecvTs s"
  "player (snd (close s)) = player s"
  by (simp_all add: close_unfold clearInterval_def ws_close_def)

section \<open>Claim C5: what \<open>close\<close> does\<close>

text \<open>
  C5. For every container, whatever the state of its transport, \<open>close\<close> calls
  \<^verbatim>\<open>ws.close(1000)\<close> if and only if the socket is \<open>OPEN\<close> or \<open>CONNECTING\<close>,
  and it cancels the watchdog timer in every state. The source tests
  \<^verbatim>\<open>readyState in [OPEN, CONNECTING]\<close>, which asks whether \<open>readyState\<close> is an
  index of a two-element array; the indices are \<open>0\<close> and \<open>1\<close>, the very codes of
  \<open>CONNECTING\<close> and \<open>OPEN\<close>, so the test agrees with membership on all four states.
\<close>

theorem close_closes_open_or_connecting:
  "fst (close s) = Normal () \<and>
   effects_since s (snd (close s)) =
     (if ws_readyState s = OPEN \<or> ws_readyState s = CONNECTING then [WsClose 1000] else []) @
     [ClearInterval] \<and>
   ((WsClose 1000 \<in> set (effects_since s (snd (close s)))) =
      (ws_readyState s = OPEN \<or> ws_readyState s = CONNECTING)) \<and>
   kickTimer_active (snd (close s)) = False"
  by (simp add: close_unfold clearInterval_def ws_close_def effects_since_def)

text \<open>\<open>close\<close> on a new container, once for each state of the socket.\<close>

theorem close_closes_open_or_connecting_witness:
  "effects (snd (close (new_container CONNECTING))) =
     [SetInterval 60000, WsClose 1000, ClearInterval] \<and>
   effects (snd (close (new_container OPEN))) =
     [SetInterval 60000, WsClose 1000, ClearInterval] \<and>
   effects (snd (close (new_container CLOSING))) = [SetInterval 60000, ClearInterval] \<and>
   effects (snd (close (new_container CLOSED))) = [SetInterval 60000, ClearInterval]"
  using close_closes_open_or_connecting [of "new_container CONNECTING"]
        close_closes_open_or_connecting [of "new_container OPEN"]
        close_closes_open_or_connecting [of "new_container CLOSING"]
        close_closes_open_or_connecting [of "new_container CLOSED"]
  by (simp add: new_container_def effects_since_def close_unfold clearInterval_def ws_close_def)

section \<open>Claim C8: closing twice\<close>

text \<open>
  C8. \<open>close\<close> is idempotent. Called twice in a row, both calls complete normally, the
  second makes no \<^verbatim>\<open>ws.close\<close> (so the two calls together close the transport at
  most once), its \<^verbatim>\<open>clearInterval\<close> finds the timer cancelled and leaves it so, and
  apart from that recorded call the container after the second \<open>close\<close> is the
  container after the first.
\<close>

theorem close_twice:
  "fst (close s) = Normal () \<and>
   fst (close (snd (close s))) = Normal () \<and>
   effects_since (snd (close s)) (snd (close (snd (close s)))) = [ClearInterval] \<and>
   length (closes (effects_since s (snd (close (snd (close s)))))) \<le> 1 \<and>
   kickTimer_active (snd (close (snd (close s)))) = False \<and>
   (snd (close (snd (close s))))\<lparr>effects := effects (snd (close s))\<rparr> = snd (close s)"
  by (cases "ws_readyState s")
     (simp_all add: close_unfold clearInterval_def ws_close_def effects_since_def)

text \<open>Two calls of \<open>close\<close> on a new container with an open socket.\<close>

theorem close_twice_witness:
  "effects (snd (close (snd (close (new_container OPEN))))) =
     [SetInterval 60000, WsClose 1000, ClearInterval, ClearInterval] \<and>
   ws_readyState (snd (close (snd (close (new_container OPEN))))) = CLOSING \<and>
   kickTimer_active (snd (close (snd (close (new_container OPEN))))) = False"
  using close_twice [of "new_container OPEN"]
  by (simp add: new_container_def effects_since_def close_unfold clearInterval_def ws_close_def)

section \<open>Claim C6: the watchdog\<close>

text \<open>
  C6. On every tick the callback closes the container if and only if \<open>lastRecvTs\<close> is
  unset or \<open>now - lastRecvTs\<close> is strictly greater than the configured timeout, a
  condition on \<open>now\<close>, \<open>lastRecvTs\<close> and the timeout alone. A container that has
  accepted no message (a new one) is closed on its first tick; one whose silence equals
  the timeout exactly is not closed (the tick only logs); one strictly past it is.
\<close>

theorem kickTimer_callback_evicts:
  "kickTimer_callback env now s =
     (if lastRecvTs s = None \<or>
         (\<exists>ts. lastRecvTs s = Some ts \<and> now - ts > WS_ACTIVITY_TIMEOUT_MS env)
      then close (log INFO [Str (''kicking inactive socket for player '' @
                                 player_uuid_or_uninitialised s)] s)
      else (Normal (),
            log TRACE [Str (''not kicking player/socket '' @ player_uuid_or_uninitialised s @
                           '' since they've been active'')] s)) \<and>
   ((ClearInterval \<in> set (effects_since s (snd (kickTimer_callback env now s)))) =
      (lastRecvTs s = None \<or>
       (\<exists>ts. lastRecvTs s = Some ts \<and> now - ts > WS_ACTIVITY_TIMEOUT_MS env))) \<and>
   (ClearInterval \<in>
      set (effects_since (new_container rs) (snd (kickTimer_callback env now (new_container rs))))) \<and>
   (lastRecvTs s = Some (now - WS_ACTIVITY_TIMEOUT_MS env) \<longrightarrow>
      effects_since s (snd (kickTimer_callback env now s)) =
        [Log TRACE [Str (''not kicking player/socket '' @ player_uuid_or_uninitialised s @
                        '' since they've been active'')]]) \<and>
   (\<forall>ts. lastRecvTs s = Some ts \<and> now - ts > WS_ACTIVITY_TIMEOUT_MS env \<longrightarrow>
      kickTimer_callback env now s =
        close (log INFO [Str (''kicking inactive socket for player '' @
                              player_uuid_or_uninitialised s)] s))"
  by (cases "lastRecvTs s")
     (simp_all add: kickTimer_callback_def close_unfold clearInterval_def ws_close_def
        effects_since_def log_def new_container_def)

text \<open>
  With the timeout of five minutes: a container last active at \<open>1000\<close> is left alone
  by a tick at \<open>301000\<close> and closed by a tick at \<open>301001\<close>; a new container is
  closed by its first tick.
\<close>

theorem kickTimer_callback_evicts_witness:
  "lastRecvTs ((new_container OPEN)\<lparr>lastRecvTs := Some 1000\<rparr>) =
     Some (301000 - WS_ACTIVITY_TIMEOUT_MS example_env) \<and>
   effects_since ((new_container OPEN)\<lparr>lastRecvTs := Some 1000\<rparr>)
     (snd (kickTimer_callback example_env 301000 ((new_container OPEN)\<lparr>lastRecvTs := Some 1000\<rparr>))) =
     [Log TRACE [Str ''not kicking player/socket *uninitialised* since they've been active'']] \<and>
   301001 - 1000 > WS_ACTIVITY_TIMEOUT_MS example_env \<and>
   effects_since ((new_container OPEN)\<lparr>lastRecvTs := Some 1000\<rparr>)
     (snd (kickTimer_callback example_env 301001 ((new_container OPEN)\<lparr>lastRecvTs := Some 1000\<rparr>))) =
     [Log INFO [Str ''kicking inactive socket for player *uninitialised*''],
      WsClose 1000, ClearInterval] \<and>
   effects_since (new_container OPEN) (snd (kickTimer_callback example_env 60000 (new_container OPEN))) =
     [Log INFO [Str ''kicking inactive socket for player *uninitialised*''],
      WsClose 1000, ClearInterval]"
  using kickTimer_callback_evicts [of example_env 301000
          "(new_container OPEN)\<lparr>lastRecvTs := Some 1000\<rparr>" OPEN]
        kickTimer_callback_evicts [of example_env 301001
          "(new_container OPEN)\<lparr>lastRecvTs := Some 1000\<rparr>" OPEN]
        kickTimer_callback_evicts [of example_env 60000 "new_container OPEN" OPEN]
  by (simp add: new_container_def example_env_def player_uuid_or_uninitialised_def
        close_unfold clearInterval_def ws_close_def effects_since_def log_def)


section \<open>Facts about the player field\<close>

lemma kickTimer_callback_player: "player (snd (kickTimer_callback env now s)) = player s"
  by (simp add: kickTimer_callback_def close_frame log_def)

lemma processMessage_try_player:
  assumes "\<forall>c j. player (snd (processSocketMessage env c j)) = player c"
  shows "player (snd (processMessage_try env data s)) = player s"
proof (cases "JSON_parse env data")
  case (Inl m)
  then show ?thesis by (simp add: processMessage_try_def)
next
  case (Inr j)
  have keep: "player (snd (processSocketMessage env s j)) = player s"
    using assms by blast
  show ?thesis
  proof (cases "processSocketMessage env s j")
    case (Pair c s1)
    with keep have "player s1 = player s" by simp
    with Inr Pair show ?thesis
      by (cases c)
         (simp_all add: processMessage_try_def send_frame split: prod.split option.split)
  qed
qed

lemma processMessage_catch_player: "player (snd (processMessage_catch env data e s)) = player s"
  by (cases e) (simp_all add: processMessage_catch_def send_frame log_def)

lemma try_catch_finally_player:
  assumes "\<And>s. player (snd (body s)) = player s"
    and "\<And>e s. player (snd (handler e s)) = player s"
    and "\<And>s. player (finaliser s) = player s"
  shows "player (snd (try_catch_finally body handler finaliser s)) = player s"
proof (cases "body s")
  case (Pair c s1)
  with assms(1) [of s] have s1: "player s1 = player s" by simp
  show ?thesis
  proof (cases c)
    case (Normal v)
    with Pair s1 assms(3) show ?thesis
      by (simp add: try_catch_finally_normal)
  next
    case (Throw e)
    with Pair s1 assms(2) [of e s1] assms(3) show ?thesis
      by (simp add: try_catch_finally_throw)
  qed
qed

section \<open>Claim C9: the identity can be rebound\<close>

text \<open>
  C9, as the code has it. \<open>setPlayer\<close> is a plain assignment: after \<open>setPlayer p\<close>
  the container's player is \<open>p\<close> whatever it was before, so a second \<open>setPlayer\<close>
  rebinds the container and \<open>getPlayer\<close> returns the player set last. No other method
  of the container writes the field: \<open>send\<close>, \<open>close\<close>, \<open>lock\<close>, \<open>unlock\<close>,
  \<open>getSequenceNumber\<close> and the watchdog leave it alone, and so does
  \<open>processMessage\<close> whenever the handler it dispatches to does.

  The claim as stated (once bound, the identity cannot be rebound, and \<open>getPlayer\<close> keeps
  returning the first player) fails: after \<open>setPlayer ann\<close> and \<open>setPlayer bob\<close> the
  player is no longer \<open>ann\<close>; the counterexample follows the theorem.
\<close>

theorem setPlayer_overwrites:
  "getPlayer (setPlayer p s) = Some p \<and>
   getPlayer (setPlayer q (setPlayer p s)) = Some q \<and>
   getPlayer (snd (send env r s)) = getPlayer s \<and>
   getPlayer (snd (close s)) = getPlayer s \<and>
   getPlayer (lock s) = getPlayer s \<and>
   getPlayer (unlock s) = getPlayer s \<and>
   getPlayer (snd (getSequenceNumber s)) = getPlayer s \<and>
   getPlayer (snd (kickTimer_callback env now s)) = getPlayer s \<and>
   ((\<forall>c j. getPlayer (snd (processSocketMessage env c j)) = getPlayer c) \<longrightarrow>
      getPlayer (snd (processMessage env now data s)) = getPlayer s)"
proof -
  have handler_free:
    "getPlayer (snd (processMessage env now data s)) = getPlayer s"
    if keep: "\<forall>c j. getPlayer (snd (processSocketMessage env c j)) = getPlayer c"
  proof (cases "isLocked s")
    case True
    then show ?thesis
      by (simp add: processMessage_def getPlayer_def send_frame log_def)
  next
    case False
    have "player (snd (try_catch_finally (processMessage_try env data)
              (processMessage_catch env data) unlock (entered now data s))) =
          player (entered now data s)"
      using keep
      by (intro try_catch_finally_player processMessage_try_player processMessage_catch_player)
         (simp_all add: getPlayer_def unlock_def)
    with False show ?thesis
      by (simp add: processMessage_accepted getPlayer_def entered_def lock_def log_def)
  qed
  show ?thesis
    using handler_free
    by (simp add: getPlayer_def setPlayer_def send_frame close_frame lock_def unlock_def
          getSequenceNumber_def kickTimer_callback_player)
qed

text \<open>
  In the example environment, whose handler leaves the container alone, a message does
  not change the player; a second \<open>setPlayer\<close> does.
\<close>

theorem setPlayer_overwrites_witness:
  "(\<forall>c j. getPlayer (snd (processSocketMessage example_env c j)) = getPlayer c) \<and>
   getPlayer (snd (processMessage example_env 7 ''{}''
                     (setPlayer (Player ''ann'') (new_container OPEN)))) =
     Some (Player ''ann'') \<and>
   getPlayer (setPlayer (Player ''bob'') (setPlayer (Player ''ann'') (new_container OPEN))) =
     Some (Player ''bob'')"
  using setPlayer_overwrites [of "Player ''ann''" "new_container OPEN" "Player ''bob''"]
        setPlayer_overwrites [of "Player ''ann''" "setPlayer (Player ''ann'') (new_container OPEN)"
          "Player ''bob''" example_env _ 7 "''{}''"]
  by (simp add: example_env_def)

text \<open>
  Against C9 as stated: bound to \<open>ann\<close> and then to \<open>bob\<close>, the container no longer
  returns \<open>ann\<close>.
\<close>

theorem setPlayer_rebinds_counterexample:
  "getPlayer (setPlayer (Player ''ann'') (new_container OPEN)) = Some (Player ''ann'') \<and>
   getPlayer (setPlayer (Player ''bob'') (setPlayer (Player ''ann'') (new_container OPEN))) \<noteq>
     Some (Player ''ann'')"
  by (simp add: getPlayer_def setPlayer_def)

section \<open>Claim C2: the gate is released\<close>

text \<open>
  C2. For every container whose gate is clear when a message arrives, the accepted
  message is processed by a \<^verbatim>\<open>try/catch/finally\<close> entered with the gate set, and
  the gate is clear when \<open>processMessage\<close> completes: whatever the decoder, the
  validator and the handler do (a response, a decode failure, a validation failure, an
  unknown kind, any other thrown value), and whatever state the handler leaves the
  container in. The same holds with any handler at all in place of the \<^verbatim>\<open>catch\<close>
  block, one that throws included: a fault during the classification of a failure does
  not keep the gate set.
\<close>

theorem processMessage_releases_gate:
  "\<not> isLocked s \<Longrightarrow>
     processMessage env now data s =
       try_catch_finally (processMessage_try env data) (processMessage_catch env data)
         unlock (entered now data s) \<and>
     isLocked (entered now data s) \<and>
     (\<forall>handler s0.
        isLocked (snd (try_catch_finally (processMessage_try env data) handler unlock s0)) = False) \<and>
     isLocked (snd (processMessage env now data s)) = False"
  by (simp add: processMessage_accepted unlocked_after_finally)
     (simp add: entered_def isLocked_def lock_def)

text \<open>
  A new container in the example environment, on a message that is answered, one that
  does not decode, one that fails validation, one of an unknown kind, and one whose
  handler throws a value that is no \<open>Error\<close> after setting the gate itself.
\<close>

theorem processMessage_releases_gate_witness:
  "\<not> isLocked (new_container OPEN) \<and>
   isLocked (snd (processMessage example_env 7 ''{}'' (new_container OPEN))) = False \<and>
   isLocked (snd (processMessage example_env 7 ''{'' (new_container OPEN))) = False \<and>
   isLocked (snd (processMessage
       (example_env\<lparr>validatePayload :=
          \<lambda>j. (False, Some [\<lparr>instancePath = ''/type'', message = Some ''must be string''\<rparr>])\<rparr>)
       7 ''{}'' (new_container OPEN))) = False \<and>
   isLocked (snd (processMessage
       (example_env\<lparr>processSocketMessage := \<lambda>c j. (Throw (HandlerNotFoundError ''jump''), c)\<rparr>)
       7 ''{}'' (new_container OPEN))) = False \<and>
   isLocked (snd (processMessage
       (example_env\<lparr>processSocketMessage := \<lambda>c j. (Throw (NonError JNull), lock c)\<rparr>)
       7 ''{}'' (new_container OPEN))) = False"
  using processMessage_releases_gate [of "new_container OPEN" example_env 7 "''{}''"]
        processMessage_releases_gate [of "new_container OPEN" example_env 7 "''{''"]
        processMessage_releases_gate [of "new_container OPEN"
          "example_env\<lparr>validatePayload :=
             \<lambda>j. (False, Some [\<lparr>instancePath = ''/type'', message = Some ''must be string''\<rparr>])\<rparr>"
          7 "''{}''"]
        processMessage_releases_gate [of "new_container OPEN"
          "example_env\<lparr>processSocketMessage := \<lambda>c j. (Throw (HandlerNotFoundError ''jump''), c)\<rparr>"
          7 "''{}''"]
        processMessage_releases_gate [of "new_container OPEN"
          "example_env\<lparr>processSocketMessage := \<lambda>c j. (Throw (NonError JNull), lock c)\<rparr>"
          7 "''{}''"]
  by (simp add: isLocked_def new_container_def)

section \<open>Facts about the failures of an accepted message\<close>

lemma processMessage_failure:
  assumes "\<not> isLocked s"
    and "processMessage_try env data (entered now data s) = (Throw e, s1)"
  shows "processMessage env now data s =
           (Normal (), unlock (snd (processMessage_catch env data e s1)))"
  using assms
  by (simp add: processMessage_accepted try_catch_finally_throw processMessage_catch_completes)

lemma processMessage_try_undecodable:
  "JSON_parse env data = Inl m \<Longrightarrow> processMessage_try env data s = (Throw (SyntaxError m), s)"
  by (simp add: processMessage_try_def)

lemma processMessage_try_invalid:
  "JSON_parse env data = Inr j \<Longrightarrow> validatePayload env j = (False, Some es) \<Longrightarrow>
     processMessage_try env data s = (Throw (ValidationError es), s)"
  by (simp add: processMessage_try_def)

lemma processMessage_try_invalid_no_errors:
  "JSON_parse env data = Inr j \<Longrightarrow> validatePayload env j = (False, None) \<Longrightarrow>
     processMessage_try env data s =
       (Throw (OtherError ''Ajv validation failed, but no errors are available to display.''), s)"
  by (simp add: processMessage_try_def)

lemma processMessage_try_handler_throws:
  "JSON_parse env data = Inr j \<Longrightarrow> validatePayload env j = (True, errs) \<Longrightarrow>
   processSocketMessage env s j = (Throw e, s1) \<Longrightarrow>
     processMessage_try env data s = (Throw e, s1)"
  by (simp add: processMessage_try_def)

section \<open>Claim C10: a thrown value that is not an \<open>Error\<close>\<close>

text \<open>
  C10. For every accepted message whose \<^verbatim>\<open>try\<close> block ends by throwing a value
  \<open>v\<close> that is not an instance of \<^verbatim>\<open>Error\<close>, \<open>processMessage\<close> answers
  with exactly one \<open>ServerError\<close> response whose text is the literal
  \<open>''unknown error''\<close> in development mode and the generic notice otherwise, and
  releases the gate. The response does not mention \<open>v\<close>; only the log does.
\<close>

theorem non_error_is_unknown_error:
  assumes "\<not> isLocked s"
    and "processMessage_try env data (entered now data s) = (Throw (NonError v), s1)"
  shows "processMessage env now data s =
           (Normal (),
            unlock (snd (send env
              \<lparr>msg_type = ServerError,
               msg_data = Info (if NODE_ENV env = ''dev'' then ''unknown error''
                                else ''there was an error processing your payload'')\<rparr>
              (log ERROR [Val (NonError v)]
                 (log ERROR [Str (''error processing an incoming message: '' @ data)] s1)))))"
  using assms by (simp add: processMessage_failure processMessage_catch_def)

text \<open>
  A handler that throws the string \<open>''secret''\<close>, in development and in production:
  the frame on the wire says \<open>unknown error\<close>, or the generic notice.
\<close>

theorem non_error_is_unknown_error_witness:
  "\<not> isLocked (new_container OPEN) \<and>
   processMessage_try
     (example_env\<lparr>processSocketMessage := \<lambda>c j. (Throw (NonError (JStr ''secret'')), c)\<rparr>)
     ''{}'' (entered 7 ''{}'' (new_container OPEN)) =
     (Throw (NonError (JStr ''secret'')), entered 7 ''{}'' (new_container OPEN)) \<and>
   frames (effects (snd (processMessage
      (example_env\<lparr>processSocketMessage := \<lambda>c j. (Throw (NonError (JStr ''secret'')), c)\<rparr>)
      7 ''{}'' (new_container OPEN)))) = [''ServerError#1 unknown error''] \<and>
   frames (effects (snd (processMessage
      (example_env\<lparr>NODE_ENV := ''production'',
                   processSocketMessage := \<lambda>c j. (Throw (NonError (JStr ''secret'')), c)\<rparr>)
      7 ''{}'' (new_container OPEN)))) =
     [''ServerError#1 there was an error processing your payload'']"
  using non_error_is_unknown_error [of "new_container OPEN"
          "example_env\<lparr>processSocketMessage := \<lambda>c j. (Throw (NonError (JStr ''secret'')), c)\<rparr>"
          "''{}''" 7 "JStr ''secret''" "entered 7 ''{}'' (new_container OPEN)"]
        non_error_is_unknown_error [of "new_container OPEN"
          "example_env\<lparr>NODE_ENV := ''production'',
             processSocketMessage := \<lambda>c j. (Throw (NonError (JStr ''secret'')), c)\<rparr>"
          "''{}''" 7 "JStr ''secret''" "entered 7 ''{}'' (new_container OPEN)"]
  by (simp add: example_env_def new_container_def isLocked_def entered_def lock_def unlock_def
        log_def send_def try_catch_def getSequenceNumber_def ws_send_def serialiser_of_def
        example_stringify_def digit_def processMessage_try_def)

section \<open>Claim C4: one response per failure\<close>

text \<open>
  C4, as the code has it. For every accepted message, \<open>processMessage\<close> completes
  normally, and a failure is answered by exactly one call of \<open>send\<close>, followed by the
  release of the gate (the call writes its frame when the socket is \<open>OPEN\<close> and
  neither the serialiser nor \<^verbatim>\<open>ws.send\<close> throws, and nothing otherwise). The
  response is chosen by the class of the thrown value, wherever it was thrown:
  \<^item> a payload that does not decode: \<open>BadPayload\<close> with the fixed notice, nothing of
    the payload;
  \<^item> a payload that decodes and fails validation, with a validator that keeps Ajv's
    promise: \<open>BadPayload\<close> carrying the validator's list of errors, which is not
    empty;
  \<^item> a handler that fails with \<open>HandlerNotFoundError\<close> for kind \<open>t\<close>:
    \<open>BadMessageType\<close>, its text holding \<open>t\<close> verbatim between double quotes;
  \<^item> a handler that throws a \<open>SyntaxError\<close>: \<open>BadPayload\<close> with the fixed notice,
    as for a payload that does not decode;
  \<^item> a handler that throws a \<open>ValidationError\<close>: \<open>BadPayload\<close> carrying the list
    of errors of that exception;
  \<^item> a handler that fails with any other \<open>Error\<close> with message \<open>m\<close>:
    \<open>ServerError\<close>, with \<open>m\<close> in development mode and the generic notice otherwise;
  \<^item> a handler that throws a value that is no \<open>Error\<close>: \<open>ServerError\<close>, with
    \<open>''unknown error''\<close> in development mode and the generic notice otherwise.

  The claim as stated (any fault during dispatch other than an unknown kind yields
  \<open>ServerError\<close>) fails when the handler throws a \<open>SyntaxError\<close> on a payload that
  decoded and passed validation: the \<^verbatim>\<open>catch\<close> block tests the class of the
  exception, not where it came from, and answers \<open>BadPayload\<close>. The counterexample
  follows the theorem.
\<close>

theorem failure_taxonomy:
  assumes "\<not> isLocked s"
  shows
    "fst (processMessage env now data s) = Normal () \<and>
     (\<forall>m. JSON_parse env data = Inl m \<longrightarrow>
        processMessage env now data s =
          (Normal (),
           unlock (snd (send env
             \<lparr>msg_type = BadPayload,
              msg_data = Info ''Your JSON payload was a bit iffy. K thx bye.''\<rparr>
             (log ERROR
                [Str (''received malformed socket message JSON/Buffer. Buffer contained:'' @
                      [CHR 0x0A] @ ''%j''),
                 Str data] (entered now data s)))))) \<and>
     (\<forall>j. validator_reports_errors env \<and> JSON_parse env data = Inr j \<and>
          \<not> fst (validatePayload env j) \<longrightarrow>
        (\<exists>es. es \<noteq> [] \<and> snd (validatePayload env j) = Some es \<and>
           processMessage env now data s =
          (Normal (),
           unlock (snd (send env
             \<lparr>msg_type = BadPayload, msg_data = InfoErrors es\<rparr>
             (log WARN
                [Str (''message failed schema validation with reason '' @ [CHR 0x22] @
                      js_join '', '' (map violation_text es) @ [CHR 0x22] @
                      '' for data: '' @ data)] (entered now data s))))))) \<and>
     (\<forall>j errs t s1.
        JSON_parse env data = Inr j \<and> validatePayload env j = (True, errs) \<and>
        processSocketMessage env (entered now data s) j = (Throw (HandlerNotFoundError t), s1) \<longrightarrow>
        processMessage env now data s =
          (Normal (),
           unlock (snd (send env
             \<lparr>msg_type = BadMessageType,
              msg_data = Info ([CHR 0x22] @ t @ [CHR 0x22] @
                               '' is an unrecognised message type'')\<rparr>
             s1)))) \<and>
     (\<forall>j errs m s1.
        JSON_parse env data = Inr j \<and> validatePayload env j = (True, errs) \<and>
        processSocketMessage env (entered now data s) j = (Throw (SyntaxError m), s1) \<longrightarrow>
        processMessage env now data s =
          (Normal (),
           unlock (snd (send env
             \<lparr>msg_type = BadPayload,
              msg_data = Info ''Your JSON payload was a bit iffy. K thx bye.''\<rparr>
             (log ERROR
                [Str (''received malformed socket message JSON/Buffer. Buffer contained:'' @
                      [CHR 0x0A] @ ''%j''),
                 Str data] s1))))) \<and>
     (\<forall>j errs es s1.
        JSON_parse env data = Inr j \<and> validatePayload env j = (True, errs) \<and>
        processSocketMessage env (entered now data s) j = (Throw (ValidationError es), s1) \<longrightarrow>
        processMessage env now data s =
          (Normal (),
           unlock (snd (send env
             \<lparr>msg_type = BadPayload, msg_data = InfoErrors es\<rparr>
             (log WARN
                [Str (''message failed schema validation with reason '' @ [CHR 0x22] @
                      js_join '', '' (map violation_text es) @ [CHR 0x22] @
                      '' for data: '' @ data)] s1))))) \<and>
     (\<forall>j errs m s1.
        JSON_parse env data = Inr j \<and> validatePayload env j = (True, errs) \<and>
        processSocketMessage env (entered now data s) j = (Throw (OtherError m), s1) \<longrightarrow>
        processMessage env now data s =
          (Normal (),
           unlock (snd (send env
             \<lparr>msg_type = ServerError,
              msg_data = Info (if NODE_ENV env = ''dev'' then m
                               else ''there was an error processing your payload'')\<rparr>
             (log ERROR [Val (OtherError m)]
                (log ERROR [Str (''error processing an incoming message: '' @ data)] s1)))))) \<and>
     (\<forall>j errs v s1.
        JSON_parse env data = Inr j \<and> validatePayload env j = (True, errs) \<and>
        processSocketMessage env (entered now data s) j = (Throw (NonError v), s1) \<longrightarrow>
        processMessage env now data s =
          (Normal (),
           unlock (snd (send env
             \<lparr>msg_type = ServerError,
              msg_data = Info (if NODE_ENV env = ''dev'' then ''unknown error''
                               else ''there was an error processing your payload'')\<rparr>
             (log ERROR [Val (NonError v)]
                (log ERROR [Str (''error processing an incoming message: '' @ data)] s1))))))"
proof (intro conjI allI impI)
  show "fst (processMessage env now data s) = Normal ()"
  proof (cases "processMessage_try env data (entered now data s)")
    case (Pair c s1)
    with assms show ?thesis
      by (cases c)
         (simp_all add: processMessage_accepted try_catch_finally_normal
            try_catch_finally_throw processMessage_catch_completes)
  qed
next
  fix m
  assume "JSON_parse env data = Inl m"
  then have "processMessage_try env data (entered now data s) =
      (Throw (SyntaxError m), entered now data s)"
    by (rule processMessage_try_undecodable)
  from processMessage_failure [OF assms this]
  show "processMessage env now data s =
          (Normal (),
           unlock (snd (send env
             \<lparr>msg_type = BadPayload,
              msg_data = Info ''Your JSON payload was a bit iffy. K thx bye.''\<rparr>
             (log ERROR
                [Str (''received malformed socket message JSON/Buffer. Buffer contained:'' @
                      [CHR 0x0A] @ ''%j''),
                 Str data] (entered now data s)))))"
    by (simp add: processMessage_catch_def)
next
  fix j
  assume hyp: "validator_reports_errors env \<and> JSON_parse env data = Inr j \<and>
    \<not> fst (validatePayload env j)"
  then obtain es where es: "snd (validatePayload env j) = Some es" "es \<noteq> []"
    unfolding validator_reports_errors_def by blast
  with hyp have "validatePayload env j = (False, Some es)"
    by (cases "validatePayload env j") simp
  with hyp have "processMessage_try env data (entered now data s) =
      (Throw (ValidationError es), entered now data s)"
    by (simp add: processMessage_try_invalid)
  from processMessage_failure [OF assms this]
  have "processMessage env now data s =
          (Normal (),
           unlock (snd (send env
             \<lparr>msg_type = BadPayload, msg_data = InfoErrors es\<rparr>
             (log WARN
                [Str (''message failed schema validation with reason '' @ [CHR 0x22] @
                      js_join '', '' (map violation_text es) @ [CHR 0x22] @
                      '' for data: '' @ data)] (entered now data s)))))"
    by (simp add: processMessage_catch_def)
  with es show "\<exists>es. es \<noteq> [] \<and> snd (validatePayload env j) = Some es \<and>
      processMessage env now data s =
          (Normal (),
           unlock (snd (send env
             \<lparr>msg_type = BadPayload, msg_data = InfoErrors es\<rparr>
             (log WARN
                [Str (''message failed schema validation with reason '' @ [CHR 0x22] @
                      js_join '', '' (map violation_text es) @ [CHR 0x22] @
                      '' for data: '' @ data)] (entered now data s)))))"
    by blast
next
  fix j errs t s1
  assume "JSON_parse env data = Inr j \<and> validatePayload env j = (True, errs) \<and>
    processSocketMessage env (entered now data s) j = (Throw (HandlerNotFoundError t), s1)"
  then have "processMessage_try env data (entered now data s) = (Throw (HandlerNotFoundError t), s1)"
    by (simp add: processMessage_try_handler_throws)
  from processMessage_failure [OF assms this]
  show "processMessage env now data s =
          (Normal (),
           unlock (snd (send env
             \<lparr>msg_type = BadMessageType,
              msg_data = Info ([CHR 0x22] @ t @ [CHR 0x22] @
                               '' is an unrecognised message type'')\<rparr>
             s1)))"
    by (simp add: processMessage_catch_def)
next
  fix j errs m s1
  assume "JSON_parse env data = Inr j \<and> validatePayload env j = (True, errs) \<and>
    processSocketMessage env (entered now data s) j = (Throw (SyntaxError m), s1)"
  then have "processMessage_try env data (entered now data s) = (Throw (SyntaxError m), s1)"
    by (simp add: processMessage_try_handler_throws)
  from processMessage_failure [OF assms this]
  show "processMessage env now data s =
          (Normal (),
           unlock (snd (send env
             \<lparr>msg_type = BadPayload,
              msg_data = Info ''Your JSON payload was a bit iffy. K thx bye.''\<rparr>
             (log ERROR
                [Str (''received malformed socket message JSON/Buffer. Buffer contained:'' @
                      [CHR 0x0A] @ ''%j''),
                 Str data] s1))))"
    by (simp add: processMessage_catch_def)
next
  fix j errs es s1
  assume "JSON_parse env data = Inr j \<and> validatePayload env j = (True, errs) \<and>
    processSocketMessage env (entered now data s) j = (Throw (ValidationError es), s1)"
  then have "processMessage_try env data (entered now data s) = (Throw (ValidationError es), s1)"
    by (simp add: processMessage_try_handler_throws)
  from processMessage_failure [OF assms this]
  show "processMessage env now data s =
          (Normal (),
           unlock (snd (send env
             \<lparr>msg_type = BadPayload, msg_data = InfoErrors es\<rparr>
             (log WARN
                [Str (''message failed schema validation with reason '' @ [CHR 0x22] @
                      js_join '', '' (map violation_text es) @ [CHR 0x22] @
                      '' for data: '' @ data)] s1))))"
    by (simp add: processMessage_catch_def)
next
  fix j errs m s1
  assume "JSON_parse env data = Inr j \<and> validatePayload env j = (True, errs) \<and>
    processSocketMessage env (entered now data s) j = (Throw (OtherError m), s1)"
  then have "processMessage_try env data (entered now data s) = (Throw (OtherError m), s1)"
    by (simp add: processMessage_try_handler_throws)
  from processMessage_failure [OF assms this]
  show "processMessage env now data s =
          (Normal (),
           unlock (snd (send env
             \<lparr>msg_type = ServerError,
              msg_data = Info (if NODE_ENV env = ''dev'' then m
                               else ''there was an error processing your payload'')\<rparr>
             (log ERROR [Val (OtherError m)]
                (log ERROR [Str (''error processing an incoming message: '' @ data)] s1)))))"
    by (simp add: processMessage_catch_def)
next
  fix j errs v s1
  assume "JSON_parse env data = Inr j \<and> validatePayload env j = (True, errs) \<and>
    processSocketMessage env (entered now data s) j = (Throw (NonError v), s1)"
  then have "processMessage_try env data (entered now data s) = (Throw (NonError v), s1)"
    by (simp add: processMessage_try_handler_throws)
  from processMessage_failure [OF assms this]
  show "processMessage env now data s =
          (Normal (),
           unlock (snd (send env
             \<lparr>msg_type = ServerError,
              msg_data = Info (if NODE_ENV env = ''dev'' then ''unknown error''
                               else ''there was an error processing your payload'')\<rparr>
             (log ERROR [Val (NonError v)]
                (log ERROR [Str (''error processing an incoming message: '' @ data)] s1)))))"
    by (simp add: processMessage_catch_def)
qed

text \<open>The frame written for each kind of failure, in the example environment.\<close>

theorem failure_taxonomy_witness:
  "\<not> isLocked (new_container OPEN) \<and>
   JSON_parse example_env ''{'' = Inl ''Unexpected token'' \<and>
   frames (effects (snd (processMessage example_env 7 ''{'' (new_container OPEN)))) =
     [''BadPayload#1 Your JSON payload was a bit iffy. K thx bye.''] \<and>
   validator_reports_errors
     (example_env\<lparr>validatePayload :=
        \<lambda>j. (False, Some [\<lparr>instancePath = ''/type'', message = Some ''must be string''\<rparr>])\<rparr>) \<and>
   frames (effects (snd (processMessage
      (example_env\<lparr>validatePayload :=
         \<lambda>j. (False, Some [\<lparr>instancePath = ''/type'', message = Some ''must be string''\<rparr>])\<rparr>)
      7 ''{}'' (new_container OPEN)))) = [''BadPayload#1 /type: must be string''] \<and>
   frames (effects (snd (processMessage
      (example_env\<lparr>processSocketMessage := \<lambda>c j. (Throw (HandlerNotFoundError ''jump''), c)\<rparr>)
      7 ''{}'' (new_container OPEN)))) =
     [''BadMessageType#1 '' @ [CHR 0x22] @ ''jump'' @ [CHR 0x22] @
      '' is an unrecognised message type''] \<and>
   frames (effects (snd (processMessage
      (example_env\<lparr>processSocketMessage :=
         \<lambda>c j. (Throw (ValidationError
                          [\<lparr>instancePath = ''/move'', message = Some ''must be object''\<rparr>]), c)\<rparr>)
      7 ''{}'' (new_container OPEN)))) = [''BadPayload#1 /move: must be object''] \<and>
   frames (effects (snd (processMessage
      (example_env\<lparr>processSocketMessage := \<lambda>c j. (Throw (OtherError ''no such game''), c)\<rparr>)
      7 ''{}'' (new_container OPEN)))) = [''ServerError#1 no such game''] \<and>
   frames (effects (snd (processMessage
      (example_env\<lparr>NODE_ENV := ''production'',
         processSocketMessage := \<lambda>c j. (Throw (OtherError ''no such game''), c)\<rparr>)
      7 ''{}'' (new_container OPEN)))) =
     [''ServerError#1 there was an error processing your payload'']"
  using failure_taxonomy [of "new_container OPEN" example_env 7 "''{''"]
        failure_taxonomy [of "new_container OPEN"
          "example_env\<lparr>validatePayload :=
             \<lambda>j. (False, Some [\<lparr>instancePath = ''/type'', message = Some ''must be string''\<rparr>])\<rparr>"
          7 "''{}''"]
        failure_taxonomy [of "new_container OPEN"
          "example_env\<lparr>processSocketMessage :=
             \<lambda>c j. (Throw (HandlerNotFoundError ''jump''), c)\<rparr>" 7 "''{}''"]
        failure_taxonomy [of "new_container OPEN"
          "example_env\<lparr>processSocketMessage :=
             \<lambda>c j. (Throw (ValidationError
                              [\<lparr>instancePath = ''/move'', message = Some ''must be object''\<rparr>]), c)\<rparr>"
          7 "''{}''"]
        failure_taxonomy [of "new_container OPEN"
          "example_env\<lparr>processSocketMessage :=
             \<lambda>c j. (Throw (OtherError ''no such game''), c)\<rparr>" 7 "''{}''"]
        failure_taxonomy [of "new_container OPEN"
          "example_env\<lparr>NODE_ENV := ''production'',
             processSocketMessage := \<lambda>c j. (Throw (OtherError ''no such game''), c)\<rparr>" 7 "''{}''"]
  by (simp add: example_env_def new_container_def isLocked_def entered_def lock_def unlock_def
        log_def send_def try_catch_def getSequenceNumber_def ws_send_def serialiser_of_def
        example_stringify_def digit_def violation_text_def validator_reports_errors_def)

text \<open>
  Against C4 as stated: the payload \<open>''{}''\<close> decodes and is valid, and the handler,
  dispatched on it, throws a \<open>SyntaxError\<close> (a handler that parses a string of its
  own does, for one). The fault happens during dispatch and is none of the other three
  kinds, yet the one frame written is a \<open>BadPayload\<close>, not a \<open>ServerError\<close>.
\<close>

theorem handler_syntax_error_counterexample:
  "JSON_parse
     (example_env\<lparr>processSocketMessage :=
        \<lambda>c j. (Throw (SyntaxError ''Unexpected end of JSON input''), c)\<rparr>) ''{}'' =
     Inr (JObj []) \<and>
   validatePayload
     (example_env\<lparr>processSocketMessage :=
        \<lambda>c j. (Throw (SyntaxError ''Unexpected end of JSON input''), c)\<rparr>) (JObj []) =
     (True, None) \<and>
   frames (effects (snd (processMessage
      (example_env\<lparr>processSocketMessage :=
         \<lambda>c j. (Throw (SyntaxError ''Unexpected end of JSON input''), c)\<rparr>)
      7 ''{}'' (new_container OPEN)))) =
     [''BadPayload#1 Your JSON payload was a bit iffy. K thx bye.''] \<and>
   JSON_stringify
     (example_env\<lparr>processSocketMessage :=
        \<lambda>c j. (Throw (SyntaxError ''Unexpected end of JSON input''), c)\<rparr>)
     \<lparr>e_type = BadPayload, e_data = Info ''Your JSON payload was a bit iffy. K thx bye.'',
      e_sequence = 1\<rparr> =
     Normal ''BadPayload#1 Your JSON payload was a bit iffy. K thx bye.''"
  by (simp add: example_env_def new_container_def isLocked_def lock_def unlock_def
        processMessage_def processMessage_try_def processMessage_catch_def
        try_catch_finally_def
        log_def send_def try_catch_def getSequenceNumber_def ws_send_def serialiser_of_def
        example_stringify_def digit_def)

section \<open>Facts about what a call adds to the effects\<close>







section \<open>Claim C1: a message that meets a set gate\<close>




section \<open>Facts about runs of \<open>send\<close>\<close>

lemma send_all_open: "ws_readyState (send_all env rs s) = ws_readyState s"
  by (induction rs arbitrary: s) (simp_all add: send_frame)



section \<open>Claim C3: sequence numbers\<close>




end
